theory Spec2Isabelle
  imports Main
begin

section \<open>The factory classes of \<open>class_loader/meta_object.h\<close>\<close>

subsection \<open>Data model\<close>

text \<open>
  \<open>ClassLoader\<close> is only forward-declared in the header; a factory keeps
  \<open>ClassLoader*\<close> values and never dereferences them. A pointer is its address.
  Objects made by \<open>new\<close> live at addresses too; \<open>nullptr\<close> is address 0.
\<close>

type_synonym ClassLoader_ptr = nat

type_synonym addr = nat

definition nullptr :: addr where
  "nullptr = 0"

text \<open>
  \<open>class AbstractMetaObjectBase\<close>: the private members
  \<open>ClassLoaderVector associated_class_loaders_\<close> (a \<open>std::vector<ClassLoader*>\<close>) and
  \<open>std::string associated_library_path_\<close>. (A trailing underscore is not a legal
  name here, so the members drop it.)
\<close>

record AbstractMetaObjectBase =
  associated_class_loaders :: "ClassLoader_ptr list"
  associated_library_path :: string

text \<open>
  \<open>template <class B> class AbstractMetaObject : public AbstractMetaObjectBase\<close> adds the
  private member \<open>const char* name_\<close>. The class never writes through that pointer, so the
  member is modelled by the string it points to.
\<close>

record AbstractMetaObject = AbstractMetaObjectBase +
  name_fld :: string

text \<open>
  \<open>template <class C, class B> class MetaObject : public AbstractMetaObject<B>\<close> adds no
  member.
\<close>

type_synonym MetaObject = AbstractMetaObject

subsection \<open>Constructors\<close>

text \<open>
  \<open>AbstractMetaObjectBase() : associated_library_path_("Unknown") {}\<close>; the vector is
  default-constructed, hence empty.
\<close>

definition AbstractMetaObjectBase_ctor :: AbstractMetaObjectBase where
  "AbstractMetaObjectBase_ctor =
     \<lparr>associated_class_loaders = [], associated_library_path = ''Unknown''\<rparr>"

text \<open>
  \<open>AbstractMetaObject(const char* name) : name_(name) {}\<close>: the base-class constructor
  runs first, then the member initialiser.
\<close>

definition AbstractMetaObject_ctor :: "string \<Rightarrow> AbstractMetaObject" where
  "AbstractMetaObject_ctor nm =
     AbstractMetaObjectBase.extend AbstractMetaObjectBase_ctor (AbstractMetaObject.fields nm)"

text \<open>\<open>MetaObject(const char* name) : AbstractMetaObject<B>(name) {}\<close>\<close>

definition MetaObject_ctor :: "string \<Rightarrow> MetaObject" where
  "MetaObject_ctor nm = AbstractMetaObject_ctor nm"

subsection \<open>Member functions defined in the header\<close>

text \<open>\<open>std::string getAssociatedLibraryPath() { return(associated_library_path_); }\<close>\<close>

definition getAssociatedLibraryPath :: "'m AbstractMetaObjectBase_scheme \<Rightarrow> string" where
  "getAssociatedLibraryPath this = associated_library_path this"

text \<open>
  \<open>void setAssociatedLibraryPath(std::string library_path)
  { associated_library_path_ = library_path; }\<close>
\<close>

definition setAssociatedLibraryPath ::
  "string \<Rightarrow> 'm AbstractMetaObjectBase_scheme \<Rightarrow> 'm AbstractMetaObjectBase_scheme" where
  "setAssociatedLibraryPath library_path this =
     this\<lparr>associated_library_path := library_path\<rparr>"

text \<open>\<open>const char* name() const { return name_; }\<close>\<close>

definition name :: "'m AbstractMetaObject_scheme \<Rightarrow> string" where
  "name this = name_fld this"

subsection \<open>Member functions declared in the header, defined elsewhere\<close>

text \<open>
  Modelled from the spec: the body of \<open>AbstractMetaObjectBase::addOwningClassLoader\<close>
  (the header only declares it). Spec 4.1: "idempotently adds \<open>owner\<close> to \<open>owners\<close> if not
  already present"; \<open>owners\<close> is an "ordered sequence", so a new owner goes to its end.
\<close>

definition addOwningClassLoader ::
  "ClassLoader_ptr \<Rightarrow> 'm AbstractMetaObjectBase_scheme \<Rightarrow> 'm AbstractMetaObjectBase_scheme" where
  "addOwningClassLoader loader this =
     (if loader \<in> set (associated_class_loaders this) then this
      else this\<lparr>associated_class_loaders := associated_class_loaders this @ [loader]\<rparr>)"

text \<open>
  Modelled from the spec: the body of \<open>AbstractMetaObjectBase::removeOwningClassLoader\<close>
  (the header only declares it). Spec 4.1: "removes \<open>owner\<close> from \<open>owners\<close> if present;
  no-op (not an error) if absent": one entry of the sequence is taken out.
\<close>

definition removeOwningClassLoader ::
  "ClassLoader_ptr \<Rightarrow> 'm AbstractMetaObjectBase_scheme \<Rightarrow> 'm AbstractMetaObjectBase_scheme" where
  "removeOwningClassLoader loader this =
     (if loader \<in> set (associated_class_loaders this)
      then this\<lparr>associated_class_loaders := remove1 loader (associated_class_loaders this)\<rparr>
      else this)"

text \<open>
  Modelled from the spec: the body of \<open>AbstractMetaObjectBase::isOwnedBy\<close> (the header
  only declares it). Spec 4.1: "true iff \<open>owner\<close> is currently present in \<open>owners\<close>".
\<close>

definition isOwnedBy :: "ClassLoader_ptr \<Rightarrow> 'm AbstractMetaObjectBase_scheme \<Rightarrow> bool" where
  "isOwnedBy loader this = (loader \<in> set (associated_class_loaders this))"

text \<open>
  Modelled from the spec: the body of \<open>AbstractMetaObjectBase::isOwnedByAnybody\<close> (the
  header only declares it). Spec 4.1: "true iff \<open>owners\<close> is non-empty".
\<close>

definition isOwnedByAnybody :: "'m AbstractMetaObjectBase_scheme \<Rightarrow> bool" where
  "isOwnedByAnybody this = (associated_class_loaders this \<noteq> [])"

subsection \<open>The free store and \<open>MetaObject<C,B>::create\<close>\<close>

text \<open>
  The free store holds the live objects of the plugin class \<open>C\<close> (the type \<open>'c\<close>), each at
  its address. An allocation function is asked for storage with the store as it is, and
  answers \<open>None\<close> when it has none to give.
\<close>

datatype error = BadAlloc | ConstructorThrew

type_synonym 'c heap = "(addr \<times> 'c) list"

type_synonym 'c allocator = "'c heap \<Rightarrow> addr option"




text \<open>
  The template parameter \<open>C\<close>, as far as \<open>new C\<close> depends on it: the allocation function
  that \<open>new C\<close> selects (the global \<open>operator new\<close>, or one that \<open>C\<close> declares), whether that
  function is declared non-throwing, and \<open>C\<close>'s default constructor, which either builds a
  value or throws.
\<close>

record 'c plugin_class =
  operator_new :: "'c allocator"
  new_is_noexcept :: bool
  default_ctor :: "'c heap \<Rightarrow> error + 'c"

text \<open>
  The expression \<open>new C\<close>. It asks the allocation function for storage. When there is none,
  a throwing allocation function throws \<open>std::bad_alloc\<close>, and with a non-throwing one the
  value of the expression is the null pointer and nothing is constructed. When there is
  storage, the default constructor runs in it: if it throws, the storage is given back and
  the exception leaves the expression; otherwise the object is alive at that address, which
  is the value of the expression.
\<close>

definition new_expr :: "'c plugin_class \<Rightarrow> 'c heap \<Rightarrow> error + (addr \<times> 'c heap)" where
  "new_expr C h =
     (case operator_new C h of
        None \<Rightarrow> if new_is_noexcept C then Inr (nullptr, h) else Inl BadAlloc
      | Some a \<Rightarrow>
          (case default_ctor C h of
             Inl e \<Rightarrow> Inl e
           | Inr v \<Rightarrow> Inr (a, (a, v) # h)))"

text \<open>
  \<open>B* create() const { return new C; }\<close>: the method is \<open>const\<close>, reads no member, and
  returns the value of the \<open>new\<close>-expression (the conversion from \<open>C*\<close> to \<open>B*\<close> keeps the
  object, and keeps null null).
\<close>

definition create ::
  "'c plugin_class \<Rightarrow> 'm AbstractMetaObject_scheme \<Rightarrow> 'c heap \<Rightarrow> error + (addr \<times> 'c heap)" where
  "create C this h = new_expr C h"


text \<open>
  Plugin classes to run examples with. \<open>bump_alloc\<close> hands out the address after the highest
  one in use and \<open>no_storage\<close> never has any. \<open>Circle\<close> is an ordinary class; the constructor
  of \<open>Fragile\<close> throws; \<open>Starved\<close> and \<open>Starved_nothrow\<close> get no storage, the second from a
  non-throwing \<open>operator new\<close> of its own.
\<close>

definition bump_alloc :: "'c allocator" where
  "bump_alloc h = Some (Suc (fold max (map fst h) 0))"


definition Circle_ctor :: "string heap \<Rightarrow> error + string" where
  "Circle_ctor h = Inr ''Circle''"


definition Circle :: "string plugin_class" where
  "Circle = \<lparr>operator_new = bump_alloc, new_is_noexcept = False, default_ctor = Circle_ctor\<rparr>"




subsection \<open>Histories of calls on one factory\<close>

text \<open>The public member functions of a \<open>MetaObject<C,B>\<close>, as calls with their arguments.\<close>

datatype call =
    GetAssociatedLibraryPath
  | SetAssociatedLibraryPath string
  | AddOwningClassLoader ClassLoader_ptr
  | RemoveOwningClassLoader ClassLoader_ptr
  | IsOwnedBy ClassLoader_ptr
  | IsOwnedByAnybody
  | Name
  | Create

text \<open>
  One call, on a factory of plugin class \<open>C\<close> and the free store. The queries return a
  value and change nothing; a \<open>create()\<close> that throws leaves both as they were.
\<close>

fun invoke :: "'c plugin_class \<Rightarrow> call \<Rightarrow> MetaObject \<times> 'c heap \<Rightarrow> MetaObject \<times> 'c heap" where
  "invoke C GetAssociatedLibraryPath (this, h) = (this, h)"
| "invoke C (SetAssociatedLibraryPath p) (this, h) = (setAssociatedLibraryPath p this, h)"
| "invoke C (AddOwningClassLoader l) (this, h) = (addOwningClassLoader l this, h)"
| "invoke C (RemoveOwningClassLoader l) (this, h) = (removeOwningClassLoader l this, h)"
| "invoke C (IsOwnedBy l) (this, h) = (this, h)"
| "invoke C IsOwnedByAnybody (this, h) = (this, h)"
| "invoke C Name (this, h) = (this, h)"
| "invoke C Create (this, h) =
     (case create C this h of
        Inl e \<Rightarrow> (this, h)
      | Inr (p, h') \<Rightarrow> (this, h'))"

text \<open>
  A factory in use: constructed with a name, then called any number of times, in order.
\<close>

definition factory_after :: "'c plugin_class \<Rightarrow> string \<Rightarrow> 'c heap \<Rightarrow> call list \<Rightarrow> MetaObject" where
  "factory_after C nm h cs = fst (fold (invoke C) cs (MetaObject_ctor nm, h))"

text \<open>
  The set of currently-added owners, read off the history alone: an add puts the owner in,
  a remove takes it out, nothing else matters.
\<close>

fun track :: "call \<Rightarrow> ClassLoader_ptr set \<Rightarrow> ClassLoader_ptr set" where
  "track (AddOwningClassLoader l) S = insert l S"
| "track (RemoveOwningClassLoader l) S = S - {l}"
| "track _ S = S"

definition currently_added :: "call list \<Rightarrow> ClassLoader_ptr set" where
  "currently_added cs = fold track cs {}"

text \<open>The argument of the last \<open>setAssociatedLibraryPath\<close> call of a history, if any.\<close>

fun last_set_path :: "call list \<Rightarrow> string option" where
  "last_set_path [] = None"
| "last_set_path (c # cs) =
     (case last_set_path cs of
        Some p \<Rightarrow> Some p
      | None \<Rightarrow> (case c of SetAssociatedLibraryPath p \<Rightarrow> Some p | _ \<Rightarrow> None))"

section \<open>Facts about the model\<close>

lemmas ctor_defs = MetaObject_ctor_def AbstractMetaObject_ctor_def AbstractMetaObjectBase_ctor_def
  AbstractMetaObjectBase.extend_def AbstractMetaObject.fields_def

lemma MetaObject_ctor_fields:
  "associated_class_loaders (MetaObject_ctor nm) = []"
  "associated_library_path (MetaObject_ctor nm) = ''Unknown''"
  "name_fld (MetaObject_ctor nm) = nm"
  by (simp_all add: ctor_defs)

lemma invoke_name: "name_fld (fst (invoke C c w)) = name_fld (fst w)"
  by (cases "(C, c, w)" rule: invoke.cases)
     (auto simp: setAssociatedLibraryPath_def addOwningClassLoader_def
        removeOwningClassLoader_def split: sum.splits)

lemma fold_invoke_name: "name_fld (fst (fold (invoke C) cs w)) = name_fld (fst w)"
  by (induction cs arbitrary: w) (simp_all add: invoke_name)

lemma invoke_distinct:
  "distinct (associated_class_loaders (fst w)) \<Longrightarrow>
   distinct (associated_class_loaders (fst (invoke C c w)))"
  by (cases "(C, c, w)" rule: invoke.cases)
     (auto simp: setAssociatedLibraryPath_def addOwningClassLoader_def
        removeOwningClassLoader_def split: sum.splits)

lemma invoke_owners:
  "distinct (associated_class_loaders (fst w)) \<Longrightarrow>
   set (associated_class_loaders (fst (invoke C c w))) =
     track c (set (associated_class_loaders (fst w)))"
  by (cases "(C, c, w)" rule: invoke.cases)
     (auto simp: setAssociatedLibraryPath_def addOwningClassLoader_def
        removeOwningClassLoader_def split: sum.splits)

lemma fold_invoke_owners:
  "distinct (associated_class_loaders (fst w)) \<Longrightarrow>
   distinct (associated_class_loaders (fst (fold (invoke C) cs w))) \<and>
   set (associated_class_loaders (fst (fold (invoke C) cs w))) =
     fold track cs (set (associated_class_loaders (fst w)))"
  by (induction cs arbitrary: w) (simp_all add: invoke_distinct invoke_owners)

lemma factory_after_distinct:
  "distinct (associated_class_loaders (factory_after C nm h cs))"
  using fold_invoke_owners [of "(MetaObject_ctor nm, h)" C cs]
  by (simp add: factory_after_def MetaObject_ctor_fields)

lemma factory_after_owners:
  "set (associated_class_loaders (factory_after C nm h cs)) = currently_added cs"
  using fold_invoke_owners [of "(MetaObject_ctor nm, h)" C cs]
  by (simp add: factory_after_def currently_added_def MetaObject_ctor_fields)

lemma invoke_path:
  "associated_library_path (fst (invoke C c w)) =
     (case c of SetAssociatedLibraryPath p \<Rightarrow> p | _ \<Rightarrow> associated_library_path (fst w))"
  by (cases "(C, c, w)" rule: invoke.cases)
     (auto simp: setAssociatedLibraryPath_def addOwningClassLoader_def
        removeOwningClassLoader_def split: sum.splits)

lemma fold_invoke_path:
  "associated_library_path (fst (fold (invoke C) cs w)) =
     (case last_set_path cs of None \<Rightarrow> associated_library_path (fst w) | Some p \<Rightarrow> p)"
proof (induction cs arbitrary: w)
  case Nil
  show ?case by simp
next
  case (Cons c cs)
  show ?case
    by (simp add: Cons.IH invoke_path split: option.splits call.splits)
qed

lemma add_idem:
  "addOwningClassLoader l (addOwningClassLoader l this) = addOwningClassLoader l this"
  by (simp add: addOwningClassLoader_def)

lemma add_funpow:
  "(addOwningClassLoader l ^^ n) (addOwningClassLoader l this) = addOwningClassLoader l this"
  by (induction n) (simp_all add: add_idem)







section \<open>The properties of the specification\<close>

text \<open>
  Claim C1. On every factory (built by the constructor and then called in any way), once
  \<open>addOwningClassLoader(o)\<close> has been called, followed by any number \<open>n\<close> of further
  \<open>addOwningClassLoader(o)\<close> calls with the same owner, \<open>isOwnedBy(o)\<close> is true, and one
  \<open>removeOwningClassLoader(o)\<close> after them makes \<open>isOwnedBy(o)\<close> false. The further adds
  change nothing at all.
\<close>

theorem add_idempotent_remove_once:
  "isOwnedBy l ((addOwningClassLoader l ^^ n)
       (addOwningClassLoader l (factory_after C nm h cs))) \<and>
   \<not> isOwnedBy l (removeOwningClassLoader l ((addOwningClassLoader l ^^ n)
       (addOwningClassLoader l (factory_after C nm h cs)))) \<and>
   (addOwningClassLoader l ^^ n) (addOwningClassLoader l (factory_after C nm h cs)) =
     addOwningClassLoader l (factory_after C nm h cs)"
proof -
  let ?F = "factory_after C nm h cs"
  have d: "distinct (associated_class_loaders ?F)" by (rule factory_after_distinct)
  have owned: "isOwnedBy l (addOwningClassLoader l ?F)"
    by (simp add: isOwnedBy_def addOwningClassLoader_def)
  have gone: "\<not> isOwnedBy l (removeOwningClassLoader l (addOwningClassLoader l ?F))"
    using d by (simp add: isOwnedBy_def addOwningClassLoader_def removeOwningClassLoader_def)
  show ?thesis using owned gone by (simp add: add_funpow)
qed

text \<open>
  Claim C2. \<open>isOwnedByAnybody()\<close> is true exactly when the set of currently-added owners
  (read off the history of calls) is not empty. Adding an owner when that set is empty takes
  the answer from false to true; removing the only remaining owner takes it from true to
  false.
\<close>

theorem isOwnedByAnybody_iff_owners:
  "(isOwnedByAnybody (factory_after C nm h cs) \<longleftrightarrow> currently_added cs \<noteq> {}) \<and>
   (currently_added cs1 = {} \<longrightarrow>
      \<not> isOwnedByAnybody (factory_after C nm h cs1) \<and>
      isOwnedByAnybody (addOwningClassLoader l1 (factory_after C nm h cs1))) \<and>
   (currently_added cs2 = {l2} \<longrightarrow>
      isOwnedByAnybody (factory_after C nm h cs2) \<and>
      \<not> isOwnedByAnybody (removeOwningClassLoader l2 (factory_after C nm h cs2)))"
proof (intro conjI impI)
  show iff: "isOwnedByAnybody (factory_after C nm h cs) \<longleftrightarrow> currently_added cs \<noteq> {}"
    for cs
    using factory_after_owners [of C nm h cs] by (auto simp: isOwnedByAnybody_def)
  show "isOwnedByAnybody (addOwningClassLoader l1 (factory_after C nm h cs1))"
    by (auto simp: isOwnedByAnybody_def addOwningClassLoader_def)
  { assume "currently_added cs1 = {}"
    then show "\<not> isOwnedByAnybody (factory_after C nm h cs1)" by (simp add: iff) }
  assume one: "currently_added cs2 = {l2}"
  then show "isOwnedByAnybody (factory_after C nm h cs2)" by (simp add: iff)
  let ?xs = "associated_class_loaders (factory_after C nm h cs2)"
  have s: "set ?xs = {l2}" using one by (simp add: factory_after_owners)
  have d: "distinct ?xs" by (rule factory_after_distinct)
  have "set (remove1 l2 ?xs) = {}" using s d by simp
  then show "\<not> isOwnedByAnybody (removeOwningClassLoader l2 (factory_after C nm h cs2))"
    using s by (simp add: isOwnedByAnybody_def removeOwningClassLoader_def)
qed

text \<open>
  Both situations of C2 occur: a new factory has no owner, and after owners 7 and 9 were
  added and 7 removed, 9 is the last one.
\<close>

theorem isOwnedByAnybody_iff_owners_witness:
  "currently_added [] = {} \<and>
   \<not> isOwnedByAnybody (factory_after Circle ''circle'' [] []) \<and>
   isOwnedByAnybody (addOwningClassLoader 7 (factory_after Circle ''circle'' [] [])) \<and>
   currently_added [AddOwningClassLoader 7, AddOwningClassLoader 9, RemoveOwningClassLoader 7] = {9} \<and>
   isOwnedByAnybody (factory_after Circle ''circle'' []
      [AddOwningClassLoader 7, AddOwningClassLoader 9, RemoveOwningClassLoader 7]) \<and>
   \<not> isOwnedByAnybody (removeOwningClassLoader 9 (factory_after Circle ''circle'' []
      [AddOwningClassLoader 7, AddOwningClassLoader 9, RemoveOwningClassLoader 7]))"
proof -
  have e: "currently_added [] = {}" by (simp add: currently_added_def)
  have o: "currently_added [AddOwningClassLoader 7, AddOwningClassLoader 9, RemoveOwningClassLoader 7] = {9}"
    by (auto simp: currently_added_def)
  show ?thesis
    using e o isOwnedByAnybody_iff_owners [of Circle "''circle''" "[]" "[]" "[]" 7
        "[AddOwningClassLoader 7, AddOwningClassLoader 9, RemoveOwningClassLoader 7]" 9]
    by simp
qed

text \<open>
  Claim C3. \<open>getAssociatedLibraryPath()\<close> answers \<open>"Unknown"\<close> on a new factory; after
  any non-empty sequence of \<open>setAssociatedLibraryPath\<close> calls, on any factory, it answers
  the argument of the last one; and after any history of calls on a factory it answers the
  argument of the last \<open>setAssociatedLibraryPath\<close> of the history, or \<open>"Unknown"\<close> when
  the history has none.
\<close>

theorem library_path_is_last_set:
  "getAssociatedLibraryPath AbstractMetaObjectBase_ctor = ''Unknown'' \<and>
   getAssociatedLibraryPath (MetaObject_ctor nm) = ''Unknown'' \<and>
   getAssociatedLibraryPath (fold setAssociatedLibraryPath (ps @ [p]) this) = p \<and>
   getAssociatedLibraryPath (factory_after C nm h cs) =
     (case last_set_path cs of None \<Rightarrow> ''Unknown'' | Some q \<Rightarrow> q)"
proof (intro conjI)
  show "getAssociatedLibraryPath AbstractMetaObjectBase_ctor = ''Unknown''"
    by (simp add: getAssociatedLibraryPath_def AbstractMetaObjectBase_ctor_def)
  show "getAssociatedLibraryPath (MetaObject_ctor nm) = ''Unknown''"
    by (simp add: getAssociatedLibraryPath_def MetaObject_ctor_fields)
  show "getAssociatedLibraryPath (fold setAssociatedLibraryPath (ps @ [p]) this) = p"
    by (simp add: getAssociatedLibraryPath_def setAssociatedLibraryPath_def)
  show "getAssociatedLibraryPath (factory_after C nm h cs) =
     (case last_set_path cs of None \<Rightarrow> ''Unknown'' | Some q \<Rightarrow> q)"
    by (simp add: getAssociatedLibraryPath_def factory_after_def fold_invoke_path
        MetaObject_ctor_fields split: option.splits)
qed

text \<open>
  Claim C6. \<open>name()\<close> answers the string given to the constructor, right after
  construction and after any history of calls (\<open>create()\<close> and all the others).
\<close>

theorem name_is_fixed:
  "name (AbstractMetaObject_ctor nm) = nm \<and>
   name (MetaObject_ctor nm) = nm \<and>
   name (factory_after C nm h cs) = nm"
  by (simp add: name_def factory_after_def fold_invoke_name MetaObject_ctor_fields
      MetaObject_ctor_fields [unfolded MetaObject_ctor_def])

text \<open>
  Claim C9. Right after construction the owner sequence is empty:
  \<open>isOwnedByAnybody()\<close> is false and \<open>isOwnedBy(o)\<close> is false for every owner \<open>o\<close>.
\<close>

theorem fresh_factory_has_no_owner:
  "associated_class_loaders AbstractMetaObjectBase_ctor = [] \<and>
   \<not> isOwnedByAnybody AbstractMetaObjectBase_ctor \<and>
   \<not> isOwnedBy l AbstractMetaObjectBase_ctor \<and>
   associated_class_loaders (MetaObject_ctor nm) = [] \<and>
   \<not> isOwnedByAnybody (MetaObject_ctor nm) \<and>
   \<not> isOwnedBy l (MetaObject_ctor nm)"
  by (simp add: isOwnedByAnybody_def isOwnedBy_def MetaObject_ctor_fields
      AbstractMetaObjectBase_ctor_def)

text \<open>
  Claim C5. For an owner that is not among the currently-added owners of a factory (never
  added, or removed since), \<open>isOwnedBy\<close> is false and \<open>removeOwningClassLoader\<close> changes
  nothing: the factory afterwards is the factory before. And for any owner at all, removing
  it leaves the answer of \<open>isOwnedBy\<close> for every other owner as it was.
\<close>

theorem remove_unknown_owner_is_noop:
  "(l \<notin> currently_added cs \<longrightarrow>
      \<not> isOwnedBy l (factory_after C nm h cs) \<and>
      removeOwningClassLoader l (factory_after C nm h cs) =
        factory_after C nm h cs) \<and>
   (l' \<noteq> l \<longrightarrow>
      isOwnedBy l' (removeOwningClassLoader l (factory_after C nm h cs)) =
        isOwnedBy l' (factory_after C nm h cs))"
proof (intro conjI impI)
  assume "l \<notin> currently_added cs"
  then have absent: "l \<notin> set (associated_class_loaders (factory_after C nm h cs))"
    by (simp add: factory_after_owners)
  then show "\<not> isOwnedBy l (factory_after C nm h cs)"
    by (simp add: isOwnedBy_def)
  from absent show "removeOwningClassLoader l (factory_after C nm h cs) =
      factory_after C nm h cs"
    by (simp add: removeOwningClassLoader_def)
next
  assume "l' \<noteq> l"
  then show "isOwnedBy l' (removeOwningClassLoader l (factory_after C nm h cs)) =
      isOwnedBy l' (factory_after C nm h cs)"
    by (simp add: isOwnedBy_def removeOwningClassLoader_def)
qed

text \<open>
  An instance of C5: owners 7 and 9 were added and 7 removed again; removing 7 once more
  changes nothing, and 9 stays an owner.
\<close>

theorem remove_unknown_owner_is_noop_witness:
  "(7::nat) \<notin> currently_added [AddOwningClassLoader 7, AddOwningClassLoader 9, RemoveOwningClassLoader 7] \<and>
   \<not> isOwnedBy 7 (factory_after Circle ''circle'' []
      [AddOwningClassLoader 7, AddOwningClassLoader 9, RemoveOwningClassLoader 7]) \<and>
   removeOwningClassLoader 7 (factory_after Circle ''circle'' []
      [AddOwningClassLoader 7, AddOwningClassLoader 9, RemoveOwningClassLoader 7]) =
     factory_after Circle ''circle'' []
      [AddOwningClassLoader 7, AddOwningClassLoader 9, RemoveOwningClassLoader 7] \<and>
   (9::nat) \<noteq> 7 \<and>
   isOwnedBy 9 (removeOwningClassLoader 7 (factory_after Circle ''circle'' []
      [AddOwningClassLoader 7, AddOwningClassLoader 9, RemoveOwningClassLoader 7])) =
     isOwnedBy 9 (factory_after Circle ''circle'' []
      [AddOwningClassLoader 7, AddOwningClassLoader 9, RemoveOwningClassLoader 7])"
proof -
  have n: "(7::nat) \<notin> currently_added
      [AddOwningClassLoader 7, AddOwningClassLoader 9, RemoveOwningClassLoader 7]"
    by (simp add: currently_added_def)
  have d: "(9::nat) \<noteq> 7" by simp
  show ?thesis
    using n d remove_unknown_owner_is_noop [of 7
        "[AddOwningClassLoader 7, AddOwningClassLoader 9, RemoveOwningClassLoader 7]"
        Circle "''circle''" "[]" 9]
    by simp
qed

text \<open>
  Claim C10. \<open>addOwningClassLoader\<close> and \<open>removeOwningClassLoader\<close> leave the library path
  as it was; \<open>setAssociatedLibraryPath\<close> leaves the owner sequence, and so both ownership
  queries, as they were; \<open>create()\<close> leaves the whole factory (name, library path, owners)
  as it was, whether it returns or throws.
\<close>

theorem owner_set_and_path_are_independent:
  "getAssociatedLibraryPath (addOwningClassLoader l this) = getAssociatedLibraryPath this \<and>
   getAssociatedLibraryPath (removeOwningClassLoader l this) = getAssociatedLibraryPath this \<and>
   associated_class_loaders (setAssociatedLibraryPath p this) = associated_class_loaders this \<and>
   isOwnedBy l (setAssociatedLibraryPath p this) = isOwnedBy l this \<and>
   isOwnedByAnybody (setAssociatedLibraryPath p this) = isOwnedByAnybody this \<and>
   fst (invoke C Create (f, h)) = f \<and>
   factory_after C nm g (cs @ [Create]) = factory_after C nm g cs"
proof -
  have c: "fst (invoke C Create w) = fst w" for w
    by (cases w) (simp split: sum.splits)
  have cf: "fst (invoke C Create (f, h)) = f"
    using c [of "(f, h)"] by simp
  have ch: "factory_after C nm g (cs @ [Create]) = factory_after C nm g cs"
    by (simp add: factory_after_def c del: invoke.simps)
  show ?thesis
    using cf ch
    by (simp add: getAssociatedLibraryPath_def addOwningClassLoader_def
        removeOwningClassLoader_def setAssociatedLibraryPath_def isOwnedBy_def
        isOwnedByAnybody_def del: invoke.simps)
qed




end
